theory Spec2Isabelle
  imports Main "HOL-Library.Word"
begin

section \<open>JavaScript strings\<close>

text \<open>
  A JavaScript string is a sequence of UTF-16 code units and \<open>.length\<close> counts them.
  ASCII literals of the source are written \<open>js ''...''\<close>.
\<close>

type_synonym jschar = "16 word"
type_synonym jsstring = "jschar list"

definition js :: "string \<Rightarrow> jsstring" where
  "js s = map of_char s"

definition ESC :: jschar where
  "ESC = 0x1B"

definition LF :: jschar where
  "LF = 0x0A"

definition CR :: jschar where
  "CR = 0x0D"

text \<open>The source's \<open>checkSymbol\<close>, the check mark U+2713: one code unit.\<close>

definition checkSymbol :: jsstring where
  "checkSymbol = [0x2713]"

text \<open>
  \<open>String(n)\<close> for an array length \<open>n\<close>: the decimal digits, most significant first.
\<close>

fun Number_toString :: "nat \<Rightarrow> jsstring" where
  "Number_toString n =
     (if n < 10 then [of_nat (48 + n)]
      else Number_toString (n div 10) @ [of_nat (48 + n mod 10)])"

text \<open>\<open>Array.prototype.join\<close>, which \<open>Array.prototype.toString\<close> calls with a comma.\<close>

fun Array_join :: "jsstring \<Rightarrow> jsstring list \<Rightarrow> jsstring" where
  "Array_join sep [] = []"
| "Array_join sep [x] = x"
| "Array_join sep (x # y # ys) = x @ sep @ Array_join sep (y # ys)"

definition Array_toString :: "jsstring list \<Rightarrow> jsstring" where
  "Array_toString xs = Array_join (js '','') xs"

text \<open>
  A template literal placeholder \<open>${v}\<close> for a property that may be absent:
  \<open>undefined\<close> is rendered as the word.
\<close>

fun template :: "jsstring option \<Rightarrow> jsstring" where
  "template None = js ''undefined''"
| "template (Some s) = s"

section \<open>The libraries the command line uses\<close>

subsection \<open>lodash\<close>

text \<open>
  \<open>_.repeat(string, n)\<close> is the empty string when the string is empty or \<open>n < 1\<close>;
  \<open>n\<close> is an integer here and may be negative. (Its upper limit on \<open>n\<close>, the largest
  safe integer, is beyond any string length and is left out.)
\<close>

definition lodash_repeat :: "jsstring \<Rightarrow> int \<Rightarrow> jsstring" where
  "lodash_repeat s n = (if s = [] \<or> n < 1 then [] else concat (replicate (nat n) s))"

definition toUpperCase :: "jschar \<Rightarrow> jschar" where
  "toUpperCase c = (if 0x61 \<le> c \<and> c \<le> 0x7A then c - 0x20 else c)"

definition toLowerCase :: "jschar \<Rightarrow> jschar" where
  "toLowerCase c = (if 0x41 \<le> c \<and> c \<le> 0x5A then c + 0x20 else c)"

text \<open>
  \<open>_.capitalize\<close>: first character to upper case, the rest to lower case
  (on the ASCII letters, which is all the severity names contain).
\<close>

fun capitalize :: "jsstring \<Rightarrow> jsstring" where
  "capitalize [] = []"
| "capitalize (c # cs) = toUpperCase c # map toLowerCase cs"

definition isEmpty :: "'a list \<Rightarrow> bool" where
  "isEmpty xs = (xs = [])"

subsection \<open>pluralize\<close>

text \<open>
  \<open>pluralize(word, count, inclusive)\<close>: the word as it is for a count of one, its
  plural otherwise, prefixed by the count and a space when \<open>inclusive\<close>. The plural
  is the regular one, which is what the library's rules give for the two words the
  source passes (\<open>error\<close>, \<open>warning\<close>).
\<close>

definition pluralize :: "jsstring \<Rightarrow> nat \<Rightarrow> bool \<Rightarrow> jsstring" where
  "pluralize word count inclusive =
     (let pluralized = (if count = 1 then word else word @ js ''s'')
      in (if inclusive then Number_toString count @ js '' '' else []) @ pluralized)"

subsection \<open>chalk\<close>

text \<open>
  A chalk style is a pair of SGR escape sequences, one switching the style on and one
  switching it off. A chain such as \<open>chalk.red.bold\<close> is the list of its styles.
  Applied to a text, the chain puts all opening sequences before it and the closing
  ones, innermost first, after it; at every line break the styles are closed and
  opened again. The empty text stays empty. Whether chalk emits anything depends on its
  colour level, which it takes from the terminal when it is loaded: at level 0 (output
  that is not a terminal, for one) every chain returns its text unchanged. The level
  is the first argument of every function that styles text. chalk's re-opening of
  styles inside a text that already holds escape sequences is left out: no text styled
  by the source holds one.
\<close>

datatype ansi = Ansi (ansi_open: jsstring) (ansi_close: jsstring)

definition red :: ansi where
  "red = Ansi (ESC # js ''[31m'') (ESC # js ''[39m'')"

definition green :: ansi where
  "green = Ansi (ESC # js ''[32m'') (ESC # js ''[39m'')"

definition yellow :: ansi where
  "yellow = Ansi (ESC # js ''[33m'') (ESC # js ''[39m'')"

definition cyan :: ansi where
  "cyan = Ansi (ESC # js ''[36m'') (ESC # js ''[39m'')"

definition bold :: ansi where
  "bold = Ansi (ESC # js ''[1m'') (ESC # js ''[22m'')"

definition underline :: ansi where
  "underline = Ansi (ESC # js ''[4m'') (ESC # js ''[24m'')"

fun stringEncaseCRLF :: "jsstring \<Rightarrow> jsstring \<Rightarrow> jsstring \<Rightarrow> jsstring" where
  "stringEncaseCRLF [] prefix postfix = []"
| "stringEncaseCRLF [c] prefix postfix =
     (if c = LF then prefix @ [LF] @ postfix else [c])"
| "stringEncaseCRLF (c # d # cs) prefix postfix =
     (if c = LF then prefix @ [LF] @ postfix @ stringEncaseCRLF (d # cs) prefix postfix
      else if c = CR \<and> d = LF then prefix @ [CR, LF] @ postfix @ stringEncaseCRLF cs prefix postfix
      else c # stringEncaseCRLF (d # cs) prefix postfix)"

definition chalk :: "nat \<Rightarrow> ansi list \<Rightarrow> jsstring \<Rightarrow> jsstring" where
  "chalk lvl styles string =
     (if lvl = 0 \<or> string = [] then string
      else let openAll = concat (map ansi_open styles);
               closeAll = concat (map ansi_close (rev styles))
           in openAll @ stringEncaseCRLF string closeAll openAll @ closeAll)"

subsection \<open>The user interface\<close>

text \<open>
  What \<open>ui.log\<close> and \<open>ui.log.error\<close> were called with, in order: the output of a run.
  An argument is a string or an error object.
\<close>

datatype js_error = JsError (err_code: "jsstring option") (err_message: jsstring)

datatype log_arg = Str jsstring | ErrObj js_error

datatype log_entry = Log "log_arg list" | LogError "log_arg list"

section \<open>Findings, theme results and options\<close>

datatype level = Error | Warning | Recommendation | Feature

fun level_name :: "level \<Rightarrow> jsstring" where
  "level_name Error = js ''error''"
| "level_name Warning = js ''warning''"
| "level_name Recommendation = js ''recommendation''"
| "level_name Feature = js ''feature''"

record failure =
  ref :: jsstring
  message :: jsstring

text \<open>
  A finding (\<open>result\<close> in the source). \<open>details\<close> and \<open>failures\<close> may be absent.
\<close>

record finding =
  rule :: jsstring
  level :: level
  details :: "jsstring option"
  failures :: "failure list option"

record results =
  error :: "finding list"
  warning :: "finding list"
  recommendation :: "finding list"
  feature :: "finding list"

record theme =
  checkedVersion :: jsstring
  results :: results

record argv =
  themePath :: jsstring
  zip_flag :: bool
  v1 :: bool
  v2 :: bool
  v3 :: bool
  v4 :: bool
  canary :: bool
  fatal :: bool
  verbose_flag :: bool

record options =
  format :: jsstring
  checkVersion :: jsstring
  verbose :: bool
  onlyFatalErrors :: bool

text \<open>
  The checker library \<open>require('../lib')\<close>: its entry points are parameters.
  \<open>check\<close> and \<open>checkZip\<close> return a promise, fulfilled with a theme result (\<open>Inr\<close>)
  or rejected with an error (\<open>Inl\<close>). The source does not show which promises the
  library hands out, so that is a parameter too: on a Bluebird promise
  \<open>catch(predicate, handler)\<close> is a filtered catch, on a standard promise \<open>catch\<close> takes
  its first argument as the rejection handler and ignores the second.

  \<open>format\<close> is handed the theme object and may change it in place. It returns a theme
  (\<open>Returned\<close>), or throws an error, leaving the object it was handed in some state
  (\<open>Threw\<close>, the error and that state).
\<close>

datatype promise_kind = Standard | Bluebird

datatype format_result = Returned theme | Threw js_error theme

record gscan =
  promises :: promise_kind
  check :: "jsstring \<Rightarrow> options \<Rightarrow> js_error + theme"
  checkZip :: "jsstring \<Rightarrow> options \<Rightarrow> js_error + theme"
  gscan_format :: "theme \<Rightarrow> options \<Rightarrow> format_result"

section \<open>bin/cli.js\<close>

text \<open>The severity palette \<open>levels\<close>.\<close>

fun levels :: "level \<Rightarrow> ansi list" where
  "levels Error = [red]"
| "levels Warning = [yellow]"
| "levels Recommendation = [yellow]"
| "levels Feature = [green]"

text \<open>
  The version flags, first branch that applies. The module's \<open>options\<close> object is
  created with \<open>format: 'cli'\<close> and gets its other fields here.
\<close>

definition resolveCheckVersion :: "argv \<Rightarrow> jsstring" where
  "resolveCheckVersion argv =
     (if v1 argv then js ''v1''
      else if v2 argv then js ''v2''
      else if v3 argv then js ''v3''
      else if v4 argv then js ''v4''
      else if canary argv then js ''canary''
      else js ''latest'')"

definition resolveOptions :: "argv \<Rightarrow> options" where
  "resolveOptions argv =
     \<lparr>format = js ''cli'',
      checkVersion = resolveCheckVersion argv,
      verbose = verbose_flag argv,
      onlyFatalErrors = fatal argv\<rparr>"

text \<open>\<open>result.failures.forEach\<close> in verbose mode: one logged line per failure.\<close>

fun forEach_failure :: "failure list \<Rightarrow> log_entry list" where
  "forEach_failure [] = []"
| "forEach_failure (failure # rest) =
     Log [Str (ref failure @ js '' - '' @ message failure)] # forEach_failure rest"

text \<open>
  \<open>outputResult\<close> reads \<open>verbose\<close> from the module's \<open>options\<close> object, passed
  here as an argument.
\<close>

definition outputResult :: "nat \<Rightarrow> options \<Rightarrow> finding \<Rightarrow> log_entry list" where
  "outputResult lvl options result =
     [Log [Str (chalk lvl (levels (level result))
                  (js ''- '' @ capitalize (level_name (level result)) @ js '':'')),
           Str (rule result)]]
     @ (if verbose options
        then [Log [Str (chalk lvl [bold] (LF # js ''Details:'') @ js '' '' @ template (details result))]]
        else [])
     @ (case failures result of
          None \<Rightarrow> []
        | Some fs \<Rightarrow>
            if fs = [] then []
            else if verbose options
            then [Log [Str []], Log [Str (chalk lvl [bold] (js ''Files:''))]] @ forEach_failure fs
            else [Log [Str (chalk lvl [bold] (js ''Files:'') @ js '' '' @ Array_toString (map ref fs))]])
     @ [Log [Str []]]"

definition getSummary :: "nat \<Rightarrow> theme \<Rightarrow> options \<Rightarrow> jsstring" where
  "getSummary lvl theme options =
     (let errorCount = length (error (results theme));
          warnCount = length (warning (results theme))
      in if errorCount = 0 \<and> warnCount = 0
         then (if onlyFatalErrors options
               then chalk lvl [green] checkSymbol
                    @ js '' Your theme has no fatal compatibility issues with Ghost ''
                    @ checkedVersion theme
               else chalk lvl [green] checkSymbol
                    @ js '' Your theme is compatible with Ghost ''
                    @ checkedVersion theme)
         else
           let summaryText = js ''Your theme has'';
               summaryText =
                 (if \<not> isEmpty (error (results theme))
                  then summaryText @ chalk lvl [red, bold]
                         (js '' '' @ pluralize (js ''error'') (length (error (results theme))) True)
                  else summaryText);
               summaryText =
                 (if \<not> isEmpty (error (results theme)) \<and> \<not> isEmpty (warning (results theme))
                  then summaryText @ js '' and''
                  else summaryText);
               summaryText =
                 (if \<not> isEmpty (warning (results theme))
                  then summaryText @ chalk lvl [yellow, bold]
                         (js '' '' @ pluralize (js ''warning'') (length (warning (results theme))) True)
                  else summaryText);
               summaryText = summaryText @ js ''!'';
               hiddenSymbols = 38
           in summaryText @ [LF]
              @ lodash_repeat (js ''-'') (int (length summaryText) - hiddenSymbols))"

text \<open>
  \<open>outputResults\<close>: the lines logged and the code \<open>process.exit\<close> is called with.
  Its \<open>options\<close> argument is the module's \<open>options\<close> object at both call sites, the one
  \<open>outputResult\<close> reads. When \<open>format\<close> throws, the variable \<open>theme\<close> is not assigned
  and still names the object that was handed to \<open>format\<close>, as \<open>format\<close> left it.
\<close>

definition outputResults ::
  "nat \<Rightarrow> gscan \<Rightarrow> theme \<Rightarrow> options \<Rightarrow> log_entry list \<times> nat" where
  "outputResults lvl lib theme0 options =
     (let (caught, theme) =
            (case gscan_format lib theme0 options of
               Returned formatted \<Rightarrow> ([], formatted)
             | Threw err left \<Rightarrow>
                 ([LogError [Str (js ''Error formating result, some results may be missing.'')],
                   LogError [ErrObj err]],
                  left));
          errorCount = length (error (results theme))
      in (caught
          @ [Log [Str (LF # getSummary lvl theme options)]]
          @ (if \<not> isEmpty (error (results theme))
             then [Log [Str (chalk lvl [red, bold] (LF # js ''Errors''))],
                   Log [Str (chalk lvl [red, bold] (js ''------''))],
                   Log [Str (chalk lvl [red]
                          (js ''Important to fix, functionality may be degraded.'' @ [LF]))]]
                  @ concat (map (outputResult lvl options) (error (results theme)))
             else [])
          @ (if \<not> isEmpty (warning (results theme))
             then [Log [Str (chalk lvl [yellow, bold] (LF # js ''Warnings''))],
                   Log [Str (chalk lvl [yellow, bold] (js ''--------''))]]
                  @ concat (map (outputResult lvl options) (warning (results theme)))
             else [])
          @ (if \<not> isEmpty (recommendation (results theme))
             then [Log [Str (chalk lvl [yellow, bold] (LF # js ''Recommendations''))],
                   Log [Str (chalk lvl [yellow, bold] (js ''---------------''))]]
                  @ concat (map (outputResult lvl options) (recommendation (results theme)))
             else [])
          @ [Log [Str (LF # js ''Get more help at ''
                       @ chalk lvl [cyan, underline]
                           (js ''https://ghost.org/docs/api/handlebars-themes/''))],
             Log [Str (js ''You can also check theme compatibility at ''
                       @ chalk lvl [cyan, underline] (js ''https://gscan.ghost.org/''))]],
          if errorCount > 0 then 1 else 0))"






section \<open>Reading the output\<close>

text \<open>
  The notions the specification uses to talk about the summary: its first line, what
  follows the first line break, a run of dashes, and the visible text of a styled
  string, which is the string without its SGR sequences (from ESC to the next \<open>m\<close>).
\<close>

definition first_line :: "jsstring \<Rightarrow> jsstring" where
  "first_line s = takeWhile (\<lambda>c. c \<noteq> LF) s"

definition after_first_line :: "jsstring \<Rightarrow> jsstring" where
  "after_first_line s = drop (Suc (length (first_line s))) s"

definition dashes :: "nat \<Rightarrow> jsstring" where
  "dashes n = replicate n 0x2D"

fun strip_scan :: "bool \<Rightarrow> jsstring \<Rightarrow> jsstring" where
  "strip_scan inside [] = []"
| "strip_scan False (c # cs) = (if c = ESC then strip_scan True cs else c # strip_scan False cs)"
| "strip_scan True (c # cs) = (if c = 0x6D then strip_scan False cs else strip_scan True cs)"

definition strip_styles :: "jsstring \<Rightarrow> jsstring" where
  "strip_styles s = strip_scan False s"

text \<open>
  The specification's precedence list of the version flags: the first flag of the list
  that is set names the version, \<open>latest\<close> when none is.
\<close>

definition version_priority :: "(jsstring \<times> (argv \<Rightarrow> bool)) list" where
  "version_priority =
     [(js ''v1'', v1), (js ''v2'', v2), (js ''v3'', v3), (js ''v4'', v4), (js ''canary'', canary)]"

definition first_match_version :: "argv \<Rightarrow> jsstring" where
  "first_match_version argv =
     (case find (\<lambda>(name, flag). flag argv) version_priority of
        Some (name, flag) \<Rightarrow> name
      | None \<Rightarrow> js ''latest'')"

text \<open>
  The specification's summary sentence for \<open>e\<close> errors and \<open>w\<close> warnings, not both
  zero; \<open>style_e\<close> and \<open>style_w\<close> style the two count phrases.
\<close>

definition count_phrase :: "string \<Rightarrow> nat \<Rightarrow> jsstring" where
  "count_phrase word n =
     (if n = 1 then js ''1 '' @ js word else Number_toString n @ js '' '' @ js word @ js ''s'')"

definition summary_sentence ::
  "(jsstring \<Rightarrow> jsstring) \<Rightarrow> (jsstring \<Rightarrow> jsstring) \<Rightarrow> nat \<Rightarrow> nat \<Rightarrow> jsstring" where
  "summary_sentence style_e style_w e w =
     js ''Your theme has''
     @ (if 0 < e then style_e (js '' '' @ count_phrase ''error'' e) else [])
     @ (if 0 < e \<and> 0 < w then js '' and'' else [])
     @ (if 0 < w then style_w (js '' '' @ count_phrase ''warning'' w) else [])
     @ js ''!''"

text \<open>
  The theme \<open>outputResults\<close> renders: what \<open>format\<close> returned, or the theme it handed
  to \<open>format\<close>, as \<open>format\<close> left it, when \<open>format\<close> threw. \<open>is_error_line\<close> tells the
  lines logged with \<open>ui.log.error\<close>.
\<close>

definition rendered_theme :: "gscan \<Rightarrow> theme \<Rightarrow> options \<Rightarrow> theme" where
  "rendered_theme lib theme options =
     (case gscan_format lib theme options of
        Threw err left \<Rightarrow> left
      | Returned formatted \<Rightarrow> formatted)"

fun is_error_line :: "log_entry \<Rightarrow> bool" where
  "is_error_line (LogError args) = True"
| "is_error_line (Log args) = False"

text \<open>
  The full report of a theme as the specification lays it out: the summary after a line
  break; for each of the groups error, warning and recommendation that is not empty, in
  this order, a styled header with a styled run of dashes of the header's length under
  it, for the errors the fixed subtitle, and every finding of the group in the group's
  order; the two footer lines.
\<close>

definition report_section ::
  "nat \<Rightarrow> options \<Rightarrow> ansi list \<Rightarrow> string \<Rightarrow> log_entry list \<Rightarrow> finding list
     \<Rightarrow> log_entry list" where
  "report_section lvl options style title subtitle findings =
     (if findings = [] then []
      else [Log [Str (chalk lvl style (LF # js title))],
            Log [Str (chalk lvl style (dashes (length title)))]]
           @ subtitle
           @ concat (map (outputResult lvl options) findings))"

definition full_report :: "nat \<Rightarrow> theme \<Rightarrow> options \<Rightarrow> log_entry list" where
  "full_report lvl theme options =
     [Log [Str (LF # getSummary lvl theme options)]]
     @ report_section lvl options [red, bold] ''Errors''
         [Log [Str (chalk lvl [red]
                 (js ''Important to fix, functionality may be degraded.'' @ [LF]))]]
         (error (results theme))
     @ report_section lvl options [yellow, bold] ''Warnings'' [] (warning (results theme))
     @ report_section lvl options [yellow, bold] ''Recommendations'' []
         (recommendation (results theme))
     @ [Log [Str (LF # js ''Get more help at ''
                  @ chalk lvl [cyan, underline]
                      (js ''https://ghost.org/docs/api/handlebars-themes/''))],
        Log [Str (js ''You can also check theme compatibility at ''
                  @ chalk lvl [cyan, underline] (js ''https://gscan.ghost.org/''))]]"

section \<open>Sample inputs\<close>

definition sample_failures :: "failure list" where
  "sample_failures =
     [\<lparr>ref = js ''index.hbs'', message = js ''helper removed''\<rparr>,
      \<lparr>ref = js ''post.hbs'', message = js ''asset missing''\<rparr>]"

definition sample_finding :: "level \<Rightarrow> finding" where
  "sample_finding lv =
     \<lparr>rule = js ''Replace the helper'', level = lv,
      details = Some (js ''The helper was removed.''), failures = Some sample_failures\<rparr>"

definition bare_finding :: "jsstring option \<Rightarrow> finding" where
  "bare_finding d =
     \<lparr>rule = js ''Replace the helper'', level = Error, details = d, failures = None\<rparr>"

definition sample_theme :: "finding list \<Rightarrow> finding list \<Rightarrow> theme" where
  "sample_theme errors warnings =
     \<lparr>checkedVersion = js ''4.x'',
      results = \<lparr>error = errors, warning = warnings, recommendation = [], feature = []\<rparr>\<rparr>"

definition sample_options :: "bool \<Rightarrow> options" where
  "sample_options v =
     \<lparr>format = js ''cli'', checkVersion = js ''latest'', verbose = v, onlyFatalErrors = False\<rparr>"

definition sample_argv :: "bool \<Rightarrow> argv" where
  "sample_argv z =
     \<lparr>themePath = js ''theme.zip'', zip_flag = z, v1 = False, v2 = False, v3 = False,
      v4 = False, canary = False, fatal = False, verbose_flag = False\<rparr>"

definition failing_lib :: "promise_kind \<Rightarrow> js_error \<Rightarrow> gscan" where
  "failing_lib kind err =
     \<lparr>promises = kind,
      check = (\<lambda>path options. Inl err),
      checkZip = (\<lambda>path options. Inl err),
      gscan_format = (\<lambda>theme options. Threw err theme)\<rparr>"

text \<open>
  A formatting step that empties the buckets of the theme it is handed, before it fills
  them again, and throws on the way.
\<close>

definition resetting_lib :: "js_error \<Rightarrow> gscan" where
  "resetting_lib err =
     \<lparr>promises = Bluebird,
      check = (\<lambda>path options. Inl err),
      checkZip = (\<lambda>path options. Inl err),
      gscan_format =
        (\<lambda>theme options.
           Threw err
             (theme\<lparr>results := (results theme)\<lparr>error := [], warning := [], recommendation := []\<rparr>\<rparr>))\<rparr>"

section \<open>Digits, styles and the summary sentence\<close>

lemma digit_unat: "k < 10 \<Longrightarrow> unat (of_nat (48 + k) :: 16 word) = 48 + k"
  by (simp del: of_nat_add of_nat_numeral add: unat_of_nat take_bit_nat_eq_self)

lemma digit_plain:
  "k < 10 \<Longrightarrow> (of_nat (48 + k) :: 16 word) \<noteq> ESC \<and> (of_nat (48 + k) :: 16 word) \<noteq> 0x6D
     \<and> (of_nat (48 + k) :: 16 word) \<noteq> LF \<and> (of_nat (48 + k) :: 16 word) \<noteq> CR"
  using digit_unat[of k] by (auto simp del: of_nat_add simp: ESC_def LF_def CR_def)

declare Number_toString.simps [simp del]

lemma Number_toString_digits:
  "c \<in> set (Number_toString n) \<Longrightarrow> \<exists>k<10. c = of_nat (48 + k)"
proof (induction n rule: Number_toString.induct)
  case (1 n)
  show ?case
  proof (cases "n < 10")
    case True
    with 1(2) show ?thesis by (subst (asm) Number_toString.simps) auto
  next
    case False
    with 1(2) have "c \<in> set (Number_toString (n div 10)) \<or> c = of_nat (48 + n mod 10)"
      by (subst (asm) Number_toString.simps) auto
    then show ?thesis
    proof
      assume "c \<in> set (Number_toString (n div 10))"
      with 1(1) False show ?thesis by blast
    next
      assume "c = of_nat (48 + n mod 10)"
      moreover have "n mod 10 < 10" by simp
      ultimately show ?thesis by blast
    qed
  qed
qed

lemma Number_toString_plain:
  "ESC \<notin> set (Number_toString n)" "0x6D \<notin> set (Number_toString n)"
  "LF \<notin> set (Number_toString n)" "CR \<notin> set (Number_toString n)"
proof -
  have "c \<noteq> ESC \<and> c \<noteq> 0x6D \<and> c \<noteq> LF \<and> c \<noteq> CR" if "c \<in> set (Number_toString n)" for c
  proof -
    from that obtain k where "k < 10" and "c = of_nat (48 + k)"
      using Number_toString_digits by blast
    then show ?thesis using digit_plain by simp
  qed
  then show "ESC \<notin> set (Number_toString n)" "0x6D \<notin> set (Number_toString n)"
    "LF \<notin> set (Number_toString n)" "CR \<notin> set (Number_toString n)"
    by blast+
qed

lemma Number_toString_nonempty: "Number_toString n \<noteq> []"
  by (subst Number_toString.simps) simp

lemma Number_toString_1: "Number_toString (Suc 0) = js ''1''"
  by (subst Number_toString.simps) (simp add: js_def)

lemma stringEncaseCRLF_plain:
  "LF \<notin> set s \<Longrightarrow> stringEncaseCRLF s p q = s"
  by (induction s p q rule: stringEncaseCRLF.induct) auto

lemma chalk_off: "chalk 0 styles s = s"
  by (simp add: chalk_def)

lemma chalk_plain:
  "0 < lvl \<Longrightarrow> s \<noteq> [] \<Longrightarrow> LF \<notin> set s \<Longrightarrow>
   chalk lvl styles s = concat (map ansi_open styles) @ s @ concat (map ansi_close (rev styles))"
  by (simp add: chalk_def stringEncaseCRLF_plain)

lemma pluralize_count_phrase:
  "pluralize (js ''error'') n True = count_phrase ''error'' n"
  "pluralize (js ''warning'') n True = count_phrase ''warning'' n"
  by (simp_all add: pluralize_def count_phrase_def Number_toString_1 js_def)

lemma count_phrase_plain:
  "LF \<notin> set (count_phrase ''error'' n)" "LF \<notin> set (count_phrase ''warning'' n)"
  "ESC \<notin> set (count_phrase ''error'' n)" "ESC \<notin> set (count_phrase ''warning'' n)"
  using Number_toString_plain [of n]
  by (simp_all add: count_phrase_def js_def LF_def ESC_def)

lemma getSummary_sentence:
  assumes "error (results theme) \<noteq> [] \<or> warning (results theme) \<noteq> []"
  shows "getSummary lvl theme options =
     (let s = summary_sentence (chalk lvl [red, bold]) (chalk lvl [yellow, bold])
                (length (error (results theme))) (length (warning (results theme)))
      in s @ [LF] @ lodash_repeat (js ''-'') (int (length s) - 38))"
  using assms
  by (auto simp: getSummary_def summary_sentence_def Let_def isEmpty_def pluralize_count_phrase
        add.assoc)

lemma strip_scan_plain:
  "ESC \<notin> set xs \<Longrightarrow> strip_scan False (xs @ ys) = xs @ strip_scan False ys"
  by (induction xs) auto

lemma strip_styles_plain:
  "ESC \<notin> set xs \<Longrightarrow> strip_styles xs = xs"
  using strip_scan_plain [of xs "[]"] by (simp add: strip_styles_def)

lemma phrase_facts:
  "js '' '' @ count_phrase word n \<noteq> []"
  "LF \<notin> set (js word) \<Longrightarrow> LF \<notin> set (js '' '' @ count_phrase word n)"
  "ESC \<notin> set (js word) \<Longrightarrow> ESC \<notin> set (js '' '' @ count_phrase word n)"
  using Number_toString_plain [of n]
  by (simp_all add: count_phrase_def js_def LF_def ESC_def)

lemma chalk_red_bold:
  "0 < lvl \<Longrightarrow> p \<noteq> [] \<Longrightarrow> LF \<notin> set p \<Longrightarrow>
   chalk lvl [red, bold] p =
   ESC # js ''[31m'' @ ESC # js ''[1m'' @ p @ ESC # js ''[22m'' @ ESC # js ''[39m''"
  by (simp add: chalk_plain red_def bold_def)

lemma chalk_yellow_bold:
  "0 < lvl \<Longrightarrow> p \<noteq> [] \<Longrightarrow> LF \<notin> set p \<Longrightarrow>
   chalk lvl [yellow, bold] p =
   ESC # js ''[33m'' @ ESC # js ''[1m'' @ p @ ESC # js ''[22m'' @ ESC # js ''[39m''"
  by (simp add: chalk_plain yellow_def bold_def)

lemma strip_chalk_two:
  assumes "0 < lvl" "p \<noteq> []" "LF \<notin> set p" "ESC \<notin> set p"
  shows "strip_scan False (chalk lvl [red, bold] p @ ys) = p @ strip_scan False ys"
    and "strip_scan False (chalk lvl [yellow, bold] p @ ys) = p @ strip_scan False ys"
  using assms
  by (simp_all add: chalk_red_bold chalk_yellow_bold js_def ESC_def strip_scan_plain)

lemma word_plain:
  "LF \<notin> set (js ''error'')" "LF \<notin> set (js ''warning'')"
  "ESC \<notin> set (js ''error'')" "ESC \<notin> set (js ''warning'')"
  by (simp_all add: js_def LF_def ESC_def)

lemma styled_error_phrase:
  "0 < lvl \<Longrightarrow> chalk lvl [red, bold] (js '' '' @ count_phrase ''error'' n) =
   ESC # js ''[31m'' @ ESC # js ''[1m'' @ (js '' '' @ count_phrase ''error'' n)
   @ ESC # js ''[22m'' @ ESC # js ''[39m''"
  by (rule chalk_red_bold) (assumption, rule phrase_facts, rule phrase_facts, rule word_plain)

lemma styled_warning_phrase:
  "0 < lvl \<Longrightarrow> chalk lvl [yellow, bold] (js '' '' @ count_phrase ''warning'' n) =
   ESC # js ''[33m'' @ ESC # js ''[1m'' @ (js '' '' @ count_phrase ''warning'' n)
   @ ESC # js ''[22m'' @ ESC # js ''[39m''"
  by (rule chalk_yellow_bold) (assumption, rule phrase_facts, rule phrase_facts, rule word_plain)

lemma length_js: "length (js s) = length s"
  by (simp add: js_def)

lemma length_styled_phrase:
  "0 < lvl \<Longrightarrow> length (chalk lvl [red, bold] (js '' '' @ count_phrase ''error'' n)) =
   length (count_phrase ''error'' n) + 20"
  "0 < lvl \<Longrightarrow> length (chalk lvl [yellow, bold] (js '' '' @ count_phrase ''warning'' n)) =
   length (count_phrase ''warning'' n) + 20"
  by (simp_all add: styled_error_phrase styled_warning_phrase length_js)

lemma summary_sentence_off:
  "summary_sentence (chalk 0 style_e) (chalk 0 style_w) e w = summary_sentence id id e w"
  by (simp add: summary_sentence_def chalk_off)

lemma length_summary_sentence:
  "0 < lvl \<Longrightarrow>
   length (summary_sentence (chalk lvl [red, bold]) (chalk lvl [yellow, bold]) e w) =
   length (summary_sentence id id e w) + (if 0 < e then 19 else 0) + (if 0 < w then 19 else 0)"
  by (simp add: summary_sentence_def length_styled_phrase length_js)

lemma plain_sentence_plain:
  "LF \<notin> set (summary_sentence id id e w)" "ESC \<notin> set (summary_sentence id id e w)"
proof -
  have "LF \<notin> set (js ''Your theme has'')" "LF \<notin> set (js '' and'')" "LF \<notin> set (js ''!'')"
    "LF \<notin> set (js '' '')" "ESC \<notin> set (js ''Your theme has'')" "ESC \<notin> set (js '' and'')"
    "ESC \<notin> set (js ''!'')" "ESC \<notin> set (js '' '')"
    by (simp_all add: js_def LF_def ESC_def)
  then show "LF \<notin> set (summary_sentence id id e w)" "ESC \<notin> set (summary_sentence id id e w)"
    by (simp_all add: summary_sentence_def count_phrase_plain)
qed

lemma LF_summary_sentence:
  "LF \<notin> set (summary_sentence (chalk lvl [red, bold]) (chalk lvl [yellow, bold]) e w)"
proof (cases "lvl = 0")
  case True
  then show ?thesis
    by (simp add: summary_sentence_off plain_sentence_plain)
next
  case False
  then have on: "0 < lvl" by simp
  have "LF \<notin> set (js ''Your theme has'')" "LF \<notin> set (js '' and'')" "LF \<notin> set (js ''!'')"
    "LF \<notin> set (js '' '')" "LF \<noteq> ESC" "LF \<notin> set (js ''[31m'')" "LF \<notin> set (js ''[33m'')"
    "LF \<notin> set (js ''[1m'')" "LF \<notin> set (js ''[22m'')" "LF \<notin> set (js ''[39m'')"
    by (simp_all add: js_def LF_def ESC_def)
  then show ?thesis
    by (simp add: summary_sentence_def styled_error_phrase [OF on] styled_warning_phrase [OF on]
        count_phrase_plain)
qed

lemma strip_styled_phrase:
  assumes "0 < lvl"
  shows "strip_scan False (chalk lvl [red, bold] (js '' '' @ count_phrase ''error'' n) @ ys) =
     js '' '' @ count_phrase ''error'' n @ strip_scan False ys"
    and "strip_scan False (chalk lvl [yellow, bold] (js '' '' @ count_phrase ''warning'' n) @ ys) =
     js '' '' @ count_phrase ''warning'' n @ strip_scan False ys"
  using strip_chalk_two [OF assms, of "js '' '' @ count_phrase ''error'' n" ys]
    strip_chalk_two [OF assms, of "js '' '' @ count_phrase ''warning'' n" ys]
    phrase_facts [of "''error''" n] phrase_facts [of "''warning''" n] word_plain
  by simp_all

lemma strip_summary_sentence:
  "strip_styles (summary_sentence (chalk lvl [red, bold]) (chalk lvl [yellow, bold]) e w) =
   summary_sentence id id e w"
proof (cases "lvl = 0")
  case True
  then show ?thesis
    by (simp add: summary_sentence_off strip_styles_plain plain_sentence_plain)
next
  case False
  then have on: "0 < lvl" by simp
  have plain: "ESC \<notin> set (js ''Your theme has'')" "ESC \<notin> set (js '' and'')"
    "ESC \<notin> set (js ''!'')"
    by (simp_all add: js_def ESC_def)
  have bang: "strip_scan False (js ''!'') = js ''!''"
    using strip_scan_plain [OF plain(3), of "[]"] by simp
  show ?thesis
    by (simp add: summary_sentence_def strip_styles_def strip_scan_plain plain bang
        strip_styled_phrase [OF on])
qed

lemma length_plain_sentence:
  "0 < e \<or> 0 < w \<Longrightarrow> 23 \<le> length (summary_sentence id id e w)"
  using Number_toString_nonempty [of e] Number_toString_nonempty [of w]
  by (auto simp: summary_sentence_def count_phrase_def length_js Suc_le_eq)

lemma first_line_append:
  "LF \<notin> set xs \<Longrightarrow> first_line (xs @ LF # ys) = xs"
  by (induction xs) (auto simp: first_line_def)

lemma after_first_line_append:
  "LF \<notin> set xs \<Longrightarrow> after_first_line (xs @ LF # ys) = ys"
  by (simp add: after_first_line_def first_line_append)

lemma lodash_repeat_dash:
  "lodash_repeat (js ''-'') n = dashes (nat n)"
proof -
  have "concat (replicate k [x]) = replicate k x" for k and x :: jschar
    by (induction k) simp_all
  then show ?thesis
    by (simp add: lodash_repeat_def dashes_def js_def)
qed

lemma getSummary_lines:
  assumes "0 < length (error (results theme)) \<or> 0 < length (warning (results theme))"
  shows "getSummary lvl theme options =
     summary_sentence (chalk lvl [red, bold]) (chalk lvl [yellow, bold])
       (length (error (results theme))) (length (warning (results theme)))
     @ LF # dashes (nat (int (length (summary_sentence (chalk lvl [red, bold])
       (chalk lvl [yellow, bold])
       (length (error (results theme))) (length (warning (results theme))))) - 38))"
  using assms getSummary_sentence [of theme lvl options]
  by (simp add: Let_def lodash_repeat_dash)

section \<open>The lines of a finding and of a report\<close>

lemma forEach_failure_map:
  "forEach_failure fs = map (\<lambda>failure. Log [Str (ref failure @ js '' - '' @ message failure)]) fs"
  by (induction fs) simp_all

lemma outputResult_no_error_line:
  "filter is_error_line (outputResult lvl options result) = []"
  by (simp add: outputResult_def forEach_failure_map split: option.split)

lemma outputResult_each_no_error_line:
  "filter is_error_line (concat (map (outputResult lvl options) rs)) = []"
  by (induction rs) (simp_all add: outputResult_no_error_line)

lemma full_report_no_error_line:
  "filter is_error_line (full_report lvl theme options) = []"
  by (simp add: full_report_def report_section_def outputResult_each_no_error_line)

lemma outputResults_full_report:
  "fst (outputResults lvl lib theme options) =
     (case gscan_format lib theme options of
        Returned formatted \<Rightarrow> []
      | Threw err left \<Rightarrow>
          [LogError [Str (js ''Error formating result, some results may be missing.'')],
           LogError [ErrObj err]])
     @ full_report lvl (rendered_theme lib theme options) options"
  by (cases "gscan_format lib theme options")
     (simp_all add: outputResults_def rendered_theme_def full_report_def report_section_def
        isEmpty_def dashes_def js_def Let_def)

section \<open>The claims\<close>

text \<open>
  C1. The exit code of \<open>outputResults\<close> is 1 exactly when the error bucket of the theme
  it renders is non-empty, and 0 exactly when that bucket is empty, whatever the other
  buckets hold. The theme it renders is the one whose summary it logs.
\<close>

theorem outputResults_exit_code:
  "(snd (outputResults lvl lib theme options) = 1) =
     (0 < length (error (results (rendered_theme lib theme options))))
   \<and> (snd (outputResults lvl lib theme options) = 0) =
       (error (results (rendered_theme lib theme options)) = [])
   \<and> Log [Str (LF # getSummary lvl (rendered_theme lib theme options) options)]
       \<in> set (fst (outputResults lvl lib theme options))"
  by (cases "gscan_format lib theme options")
     (simp_all add: outputResults_def rendered_theme_def Let_def)

theorem outputResults_exit_code_witness:
  "snd (outputResults 1 (failing_lib Bluebird (JsError None (js ''boom'')))
          (sample_theme [] [sample_finding Warning, sample_finding Warning]) (sample_options False)) = 0
   \<and> snd (outputResults 1 (failing_lib Bluebird (JsError None (js ''boom'')))
          (sample_theme [sample_finding Error] []) (sample_options False)) = 1"
  using outputResults_exit_code [of 1 "failing_lib Bluebird (JsError None (js ''boom''))"
      "sample_theme [] [sample_finding Warning, sample_finding Warning]" "sample_options False"]
    outputResults_exit_code [of 1 "failing_lib Bluebird (JsError None (js ''boom''))"
      "sample_theme [sample_finding Error] []" "sample_options False"]
  by (simp add: rendered_theme_def failing_lib_def sample_theme_def)




text \<open>
  C3. A formatting step that empties the buckets of the theme it is handed and then
  throws: the theme passed in has an error, yet the report is the one of the emptied
  theme and the exit code is 0, not the code of the theme as it was passed.
\<close>

theorem outputResults_format_throws_counterexample:
  "error (results (sample_theme [sample_finding Error] [])) \<noteq> []
   \<and> snd (outputResults 1 (resetting_lib (JsError None (js ''boom'')))
          (sample_theme [sample_finding Error] []) (sample_options False)) = 0
   \<and> fst (outputResults 1 (resetting_lib (JsError None (js ''boom'')))
          (sample_theme [sample_finding Error] []) (sample_options False)) =
       [LogError [Str (js ''Error formating result, some results may be missing.'')],
        LogError [ErrObj (JsError None (js ''boom''))]]
       @ full_report 1 (sample_theme [] []) (sample_options False)"
proof -
  let ?lib = "resetting_lib (JsError None (js ''boom''))"
  let ?t = "sample_theme [sample_finding Error] []"
  have left: "rendered_theme ?lib ?t (sample_options False) = sample_theme [] []"
    by (simp add: rendered_theme_def resetting_lib_def sample_theme_def)
  have threw: "gscan_format ?lib ?t (sample_options False) =
      Threw (JsError None (js ''boom'')) (sample_theme [] [])"
    by (simp add: resetting_lib_def sample_theme_def)
  have run: "fst (outputResults 1 ?lib ?t (sample_options False)) =
       [LogError [Str (js ''Error formating result, some results may be missing.'')],
        LogError [ErrObj (JsError None (js ''boom''))]]
       @ full_report 1 (sample_theme [] []) (sample_options False)"
    using outputResults_full_report [of 1 ?lib ?t "sample_options False"]
    unfolding left threw by simp
  have code: "snd (outputResults 1 ?lib ?t (sample_options False)) = 0"
    using threw by (simp add: outputResults_def Let_def sample_theme_def)
  have passed: "error (results ?t) \<noteq> []"
    by (simp add: sample_theme_def)
  from passed code run show ?thesis
    by (intro conjI)
qed

text \<open>
  C3, amended. When \<open>format\<close> throws, \<open>outputResults\<close> logs the fixed warning and the thrown
  error, the only two lines logged as errors, then the full report of the theme it handed
  to \<open>format\<close>, in the state \<open>format\<close> left it, and exits with the code of that theme. Where
  \<open>format\<close> left the theme as it was passed, report and exit code are those of the theme
  as passed.
\<close>

theorem outputResults_format_throws:
  assumes "gscan_format lib theme options = Threw err left"
  shows "fst (outputResults lvl lib theme options) =
           [LogError [Str (js ''Error formating result, some results may be missing.'')],
            LogError [ErrObj err]]
           @ full_report lvl left options
         \<and> snd (outputResults lvl lib theme options) = (if error (results left) = [] then 0 else 1)
         \<and> filter is_error_line (fst (outputResults lvl lib theme options)) =
             [LogError [Str (js ''Error formating result, some results may be missing.'')],
              LogError [ErrObj err]]
         \<and> (left = theme \<longrightarrow>
              fst (outputResults lvl lib theme options) =
                [LogError [Str (js ''Error formating result, some results may be missing.'')],
                 LogError [ErrObj err]]
                @ full_report lvl theme options
              \<and> snd (outputResults lvl lib theme options) =
                  (if error (results theme) = [] then 0 else 1))"
proof -
  have run: "fst (outputResults lvl lib theme options) =
           [LogError [Str (js ''Error formating result, some results may be missing.'')],
            LogError [ErrObj err]]
           @ full_report lvl left options"
    using assms outputResults_full_report [of lvl lib theme options]
    by (simp add: rendered_theme_def)
  have code: "snd (outputResults lvl lib theme options) =
      (if error (results left) = [] then 0 else 1)"
    using assms by (simp add: outputResults_def Let_def)
  have "filter is_error_line (fst (outputResults lvl lib theme options)) =
             [LogError [Str (js ''Error formating result, some results may be missing.'')],
              LogError [ErrObj err]]"
    unfolding run by (simp add: full_report_no_error_line)
  with run code show ?thesis by simp
qed

theorem outputResults_format_throws_witness:
  "gscan_format (failing_lib Bluebird (JsError None (js ''boom'')))
       (sample_theme [sample_finding Error] []) (sample_options False)
     = Threw (JsError None (js ''boom'')) (sample_theme [sample_finding Error] [])
   \<and> fst (outputResults 1 (failing_lib Bluebird (JsError None (js ''boom'')))
        (sample_theme [sample_finding Error] []) (sample_options False)) =
       [LogError [Str (js ''Error formating result, some results may be missing.'')],
        LogError [ErrObj (JsError None (js ''boom''))]]
       @ full_report 1 (sample_theme [sample_finding Error] []) (sample_options False)
   \<and> snd (outputResults 1 (failing_lib Bluebird (JsError None (js ''boom'')))
        (sample_theme [sample_finding Error] []) (sample_options False)) = 1"
proof -
  let ?lib = "failing_lib Bluebird (JsError None (js ''boom''))"
  let ?t = "sample_theme [sample_finding Error] []"
  have h: "gscan_format ?lib ?t (sample_options False) = Threw (JsError None (js ''boom'')) ?t"
    by (simp add: failing_lib_def)
  have e: "error (results ?t) \<noteq> []"
    by (simp add: sample_theme_def)
  from h e outputResults_format_throws [OF h, of 1] show ?thesis
    by simp
qed

text \<open>
  C4. At chalk level 0 nothing is added to the sentence: for one error the first line has
  23 code units, \<open>_.repeat\<close> is asked for -15 dashes and gives none, so the length of the
  underline is not the length of the line minus 38.
\<close>

theorem getSummary_underline_length_counterexample:
  "getSummary 0 (sample_theme [sample_finding Error] []) (sample_options False) =
     js ''Your theme has 1 error!'' @ [LF]
   \<and> int (length (after_first_line
        (getSummary 0 (sample_theme [sample_finding Error] []) (sample_options False)))) \<noteq>
       int (length (first_line
        (getSummary 0 (sample_theme [sample_finding Error] []) (sample_options False)))) - 38"
  by code_simp

text \<open>
  C4, amended. With at least one error or warning, the summary is its first line, a line
  break and a run of dashes, as many as the first line has code units beyond 38 and none
  when it has no more than 38. When chalk emits its styling (level above 0) the first
  line has at least 38 code units and the run has exactly 38 fewer than it.
\<close>

theorem getSummary_underline_length:
  assumes "0 < length (error (results theme)) \<or> 0 < length (warning (results theme))"
  shows "getSummary lvl theme options =
           first_line (getSummary lvl theme options) @ [LF]
           @ after_first_line (getSummary lvl theme options)
         \<and> after_first_line (getSummary lvl theme options) =
             dashes (nat (max 0 (int (length (first_line (getSummary lvl theme options))) - 38)))
         \<and> (0 < lvl \<longrightarrow>
              38 \<le> length (first_line (getSummary lvl theme options))
              \<and> int (length (after_first_line (getSummary lvl theme options))) =
                  int (length (first_line (getSummary lvl theme options))) - 38)"
proof -
  let ?e = "length (error (results theme))" and ?w = "length (warning (results theme))"
  let ?s = "summary_sentence (chalk lvl [red, bold]) (chalk lvl [yellow, bold]) ?e ?w"
  have eq: "getSummary lvl theme options = ?s @ LF # dashes (nat (int (length ?s) - 38))"
    using assms by (rule getSummary_lines)
  have first: "first_line (getSummary lvl theme options) = ?s"
    unfolding eq by (rule first_line_append) (rule LF_summary_sentence)
  have rest: "after_first_line (getSummary lvl theme options) =
      dashes (nat (int (length ?s) - 38))"
    unfolding eq by (rule after_first_line_append) (rule LF_summary_sentence)
  have clamp: "nat (max 0 (int (length ?s) - 38)) = nat (int (length ?s) - 38)"
    by (simp add: max_def)
  have long: "38 \<le> length ?s" if "0 < lvl"
  proof -
    have "23 \<le> length (summary_sentence id id ?e ?w)"
      using assms by (rule length_plain_sentence)
    moreover have "19 \<le> (if 0 < ?e then 19 else 0) + (if 0 < ?w then 19 else (0::nat))"
      using assms by auto
    ultimately show ?thesis
      unfolding length_summary_sentence [OF that] by linarith
  qed
  have len: "int (length (dashes (nat (int (length ?s) - 38)))) = int (length ?s) - 38"
    if "0 < lvl"
    using long [OF that] by (simp add: dashes_def)
  from eq first rest clamp long len show ?thesis
    by simp
qed

theorem getSummary_underline_length_witness:
  "(0 < length (error (results (sample_theme [sample_finding Error] [])))
      \<or> 0 < length (warning (results (sample_theme [sample_finding Error] []))))
   \<and> (0::nat) < 1
   \<and> 38 \<le> length (first_line (getSummary 1 (sample_theme [sample_finding Error] []) (sample_options False)))
   \<and> int (length (after_first_line
          (getSummary 1 (sample_theme [sample_finding Error] []) (sample_options False)))) =
       int (length (first_line
          (getSummary 1 (sample_theme [sample_finding Error] []) (sample_options False)))) - 38
   \<and> after_first_line (getSummary 0 (sample_theme [sample_finding Error] []) (sample_options False)) =
       dashes (nat (max 0 (int (length (first_line
          (getSummary 0 (sample_theme [sample_finding Error] []) (sample_options False)))) - 38)))"
proof -
  have h: "0 < length (error (results (sample_theme [sample_finding Error] [])))
      \<or> 0 < length (warning (results (sample_theme [sample_finding Error] [])))"
    by (simp add: sample_theme_def)
  have on: "(0::nat) < 1"
    by simp
  note styled = getSummary_underline_length [OF h, of 1 "sample_options False"]
  note unstyled = getSummary_underline_length [OF h, of 0 "sample_options False"]
  note exact = styled [THEN conjunct2, THEN conjunct2, rule_format, OF on]
  from h on exact [THEN conjunct1] exact [THEN conjunct2]
    unstyled [THEN conjunct2, THEN conjunct1]
  show ?thesis
    by (intro conjI)
qed

text \<open>
  C5. The resolved version is the first set flag of the list v1, v2, v3, v4, canary; with
  v1 and v3 set it is v1; it is \<open>latest\<close> exactly when none of the five is set.
\<close>

theorem checkVersion_first_match:
  "checkVersion (resolveOptions argv) = first_match_version argv
   \<and> checkVersion (resolveOptions (argv\<lparr>v1 := True, v3 := True\<rparr>)) = js ''v1''
   \<and> (checkVersion (resolveOptions argv) = js ''latest'') =
       (\<not> v1 argv \<and> \<not> v2 argv \<and> \<not> v3 argv \<and> \<not> v4 argv \<and> \<not> canary argv)"
  by (simp add: resolveOptions_def resolveCheckVersion_def first_match_version_def
      version_priority_def js_def)

theorem checkVersion_first_match_witness:
  "checkVersion (resolveOptions ((sample_argv False)\<lparr>v1 := True, v3 := True\<rparr>)) = js ''v1''
   \<and> checkVersion (resolveOptions ((sample_argv False)\<lparr>v3 := True, canary := True\<rparr>)) = js ''v3''
   \<and> checkVersion (resolveOptions (sample_argv False)) = js ''latest''"
  using checkVersion_first_match [of "sample_argv False"]
    checkVersion_first_match [of "(sample_argv False)\<lparr>v3 := True, canary := True\<rparr>"]
  by (simp add: sample_argv_def first_match_version_def version_priority_def)

text \<open>
  C6. With at least one error or warning, the first line of the summary is the sentence
  of the specification: "Your theme has", the styled count phrase of the errors when there
  are any, "and" when there are both, the styled count phrase of the warnings when there
  are any, and "!". Without its styling it is the same sentence unstyled; for two errors
  and three warnings that is "Your theme has 2 errors and 3 warnings!".
\<close>

theorem getSummary_sentence_parts:
  assumes "0 < length (error (results theme)) \<or> 0 < length (warning (results theme))"
  shows "first_line (getSummary lvl theme options) =
           summary_sentence (chalk lvl [red, bold]) (chalk lvl [yellow, bold])
             (length (error (results theme))) (length (warning (results theme)))
         \<and> strip_styles (first_line (getSummary lvl theme options)) =
             summary_sentence id id
               (length (error (results theme))) (length (warning (results theme)))"
proof -
  let ?e = "length (error (results theme))" and ?w = "length (warning (results theme))"
  let ?s = "summary_sentence (chalk lvl [red, bold]) (chalk lvl [yellow, bold]) ?e ?w"
  have eq: "getSummary lvl theme options = ?s @ LF # dashes (nat (int (length ?s) - 38))"
    using assms by (rule getSummary_lines)
  have "first_line (getSummary lvl theme options) = ?s"
    unfolding eq by (rule first_line_append) (rule LF_summary_sentence)
  then show ?thesis
    by (simp add: strip_summary_sentence)
qed

theorem getSummary_sentence_parts_witness:
  "(0 < length (error (results (sample_theme [sample_finding Error, sample_finding Error]
        [sample_finding Warning, sample_finding Warning, sample_finding Warning])))
    \<or> 0 < length (warning (results (sample_theme [sample_finding Error, sample_finding Error]
        [sample_finding Warning, sample_finding Warning, sample_finding Warning]))))
   \<and> strip_styles (first_line (getSummary 1
        (sample_theme [sample_finding Error, sample_finding Error]
           [sample_finding Warning, sample_finding Warning, sample_finding Warning])
        (sample_options False))) = js ''Your theme has 2 errors and 3 warnings!''"
proof -
  let ?t = "sample_theme [sample_finding Error, sample_finding Error]
              [sample_finding Warning, sample_finding Warning, sample_finding Warning]"
  have h: "0 < length (error (results ?t)) \<or> 0 < length (warning (results ?t))"
    by (simp add: sample_theme_def)
  have counts: "length (error (results ?t)) = 2" "length (warning (results ?t)) = 3"
    by (simp_all add: sample_theme_def)
  have "strip_styles (first_line (getSummary 1 ?t (sample_options False))) =
        summary_sentence id id 2 3"
    using getSummary_sentence_parts [OF h, of 1 "sample_options False"] unfolding counts
    by (rule conjunct2)
  also have "\<dots> = js ''Your theme has 2 errors and 3 warnings!''"
    by (simp add: summary_sentence_def count_phrase_def Number_toString.simps js_def)
  finally show ?thesis
    using h by (rule conjI [rotated])
qed

text \<open>
  C7. Without errors and warnings the summary is the green check mark, the success wording
  chosen by \<open>onlyFatalErrors\<close> and the checked version, and nothing after it: it holds a
  line break only where the checked version does.
\<close>

theorem getSummary_success:
  assumes "length (error (results theme)) = 0 \<and> length (warning (results theme)) = 0"
  shows "getSummary lvl theme options =
           chalk lvl [green] checkSymbol
           @ (if onlyFatalErrors options
              then js '' Your theme has no fatal compatibility issues with Ghost ''
              else js '' Your theme is compatible with Ghost '')
           @ checkedVersion theme
         \<and> chalk lvl [green] checkSymbol =
             (if lvl = 0 then [0x2713] else ESC # js ''[32m'' @ [0x2713] @ ESC # js ''[39m'')
         \<and> (LF \<in> set (getSummary lvl theme options)) = (LF \<in> set (checkedVersion theme))"
proof -
  have tick: "chalk lvl [green] checkSymbol =
      (if lvl = 0 then [0x2713] else ESC # js ''[32m'' @ [0x2713] @ ESC # js ''[39m'')"
    by (simp add: chalk_def checkSymbol_def green_def LF_def)
  have "LF \<notin> set (ESC # js ''[32m'' @ [0x2713] @ ESC # js ''[39m'')"
    "LF \<notin> set [0x2713 :: jschar]"
    "LF \<notin> set (js '' Your theme has no fatal compatibility issues with Ghost '')"
    "LF \<notin> set (js '' Your theme is compatible with Ghost '')"
    by (simp_all add: js_def LF_def ESC_def)
  with assms tick show ?thesis
    by (simp add: getSummary_def)
qed

theorem getSummary_success_witness:
  "(length (error (results (sample_theme [] []))) = 0
    \<and> length (warning (results (sample_theme [] []))) = 0)
   \<and> getSummary 1 (sample_theme [] []) (sample_options False) =
       ESC # js ''[32m'' @ [0x2713] @ ESC # js ''[39m''
       @ js '' Your theme is compatible with Ghost 4.x''"
  using getSummary_success [of "sample_theme [] []" 1 "sample_options False"]
  by (simp add: sample_theme_def sample_options_def js_def)

text \<open>
  C8. For a finding with failures: in compact mode three lines are logged, the label, one
  "Files:" line with the refs joined by commas, and the blank line; in verbose mode the
  "Files:" header is followed by one line "ref - message" per failure, in the order of the
  failures, and the blank line.
\<close>

theorem outputResult_failures:
  assumes "failures result = Some fs" and "fs \<noteq> []"
  shows "(\<not> verbose options \<longrightarrow>
           length (outputResult lvl options result) = 3
           \<and> drop 1 (outputResult lvl options result) =
               [Log [Str (chalk lvl [bold] (js ''Files:'') @ js '' ''
                          @ Array_join (js '','') (map ref fs))],
                Log [Str []]])
       \<and> (verbose options \<longrightarrow>
           length (outputResult lvl options result) = 5 + length fs
           \<and> drop 3 (outputResult lvl options result) =
               Log [Str (chalk lvl [bold] (js ''Files:''))]
               # map (\<lambda>failure. Log [Str (ref failure @ js '' - '' @ message failure)]) fs
               @ [Log [Str []]])"
  using assms by (simp add: outputResult_def forEach_failure_map Array_toString_def)

theorem outputResult_failures_witness:
  "failures (sample_finding Error) = Some sample_failures \<and> sample_failures \<noteq> []
   \<and> drop 1 (outputResult 1 (sample_options False) (sample_finding Error)) =
       [Log [Str (ESC # js ''[1m'' @ js ''Files:'' @ ESC # js ''[22m'' @ js '' index.hbs,post.hbs'')],
        Log [Str []]]
   \<and> drop 3 (outputResult 1 (sample_options True) (sample_finding Error)) =
       [Log [Str (ESC # js ''[1m'' @ js ''Files:'' @ ESC # js ''[22m'')],
        Log [Str (js ''index.hbs - helper removed'')],
        Log [Str (js ''post.hbs - asset missing'')],
        Log [Str []]]"
  using outputResult_failures [of "sample_finding Error" sample_failures "sample_options False" 1]
    outputResult_failures [of "sample_finding Error" sample_failures "sample_options True" 1]
  by (simp add: sample_finding_def sample_failures_def sample_options_def chalk_def bold_def
      js_def LF_def ESC_def CR_def)

text \<open>
  C9. In verbose mode a finding without details and without failures is logged in three
  lines, not two: the "Details:" line stands between the label and the blank line, whether
  the details are absent or empty.
\<close>

theorem outputResult_bare_counterexample:
  "outputResult 1 (sample_options True) (bare_finding None) =
     [Log [Str (ESC # js ''[31m'' @ js ''- Error:'' @ ESC # js ''[39m''),
           Str (js ''Replace the helper'')],
      Log [Str (ESC # js ''[1m'' @ ESC # js ''[22m'' @ [LF] @ ESC # js ''[1m'' @ js ''Details:''
                @ ESC # js ''[22m'' @ js '' undefined'')],
      Log [Str []]]
   \<and> outputResult 1 (sample_options True) (bare_finding (Some [])) =
     [Log [Str (ESC # js ''[31m'' @ js ''- Error:'' @ ESC # js ''[39m''),
           Str (js ''Replace the helper'')],
      Log [Str (ESC # js ''[1m'' @ ESC # js ''[22m'' @ [LF] @ ESC # js ''[1m'' @ js ''Details:''
                @ ESC # js ''[22m'' @ js '' '')],
      Log [Str []]]
   \<and> outputResult 0 (sample_options True) (bare_finding None) =
     [Log [Str (js ''- Error:''), Str (js ''Replace the helper'')],
      Log [Str ([LF] @ js ''Details: undefined'')],
      Log [Str []]]"
  by (simp add: outputResult_def sample_options_def bare_finding_def chalk_def bold_def red_def
      toUpperCase_def toLowerCase_def js_def LF_def ESC_def CR_def)

text \<open>
  C9, amended. A finding without failures is logged as its label line and the blank line,
  with the "Details:" line between them in verbose mode and only there. Every finding is
  logged, and the last line logged for it is the blank line.
\<close>

theorem outputResult_bare:
  "(failures result = None \<or> failures result = Some [] \<longrightarrow>
      outputResult lvl options result =
        Log [Str (chalk lvl (levels (level result))
                    (js ''- '' @ capitalize (level_name (level result)) @ js '':'')),
             Str (rule result)]
        # (if verbose options
           then [Log [Str (chalk lvl [bold] (LF # js ''Details:'') @ js '' ''
                           @ template (details result))]]
           else [])
        @ [Log [Str []]])
   \<and> outputResult lvl options result \<noteq> []
   \<and> last (outputResult lvl options result) = Log [Str []]"
  by (auto simp: outputResult_def)

theorem outputResult_bare_witness:
  "(failures (bare_finding None) = None \<or> failures (bare_finding None) = Some [])
   \<and> outputResult 1 (sample_options False) (bare_finding None) =
       [Log [Str (ESC # js ''[31m'' @ js ''- Error:'' @ ESC # js ''[39m''),
             Str (js ''Replace the helper'')],
        Log [Str []]]
   \<and> length (outputResult 1 (sample_options True) (bare_finding None)) = 3
   \<and> last (outputResult 1 (sample_options True) (sample_finding Warning)) = Log [Str []]"
  using outputResult_bare [of "bare_finding None" 1 "sample_options False"]
    outputResult_bare [of "bare_finding None" 1 "sample_options True"]
    outputResult_bare [of "sample_finding Warning" 1 "sample_options True"]
  by (simp add: sample_options_def bare_finding_def chalk_def red_def
      toUpperCase_def toLowerCase_def js_def LF_def ESC_def CR_def)

text \<open>
  C10. At chalk level 0 no styling is in the summary: for one error the first line is its
  own visible text, 23 code units, and the underline is empty, 23 shorter than the
  visible text and not 19.
\<close>

theorem getSummary_underline_short_counterexample:
  "strip_styles (first_line
      (getSummary 0 (sample_theme [sample_finding Error] []) (sample_options False))) =
     first_line (getSummary 0 (sample_theme [sample_finding Error] []) (sample_options False))
   \<and> first_line (getSummary 0 (sample_theme [sample_finding Error] []) (sample_options False)) =
       js ''Your theme has 1 error!''
   \<and> after_first_line
        (getSummary 0 (sample_theme [sample_finding Error] []) (sample_options False)) = []
   \<and> length (after_first_line
        (getSummary 0 (sample_theme [sample_finding Error] []) (sample_options False))) + 19 \<noteq>
       length (strip_styles (first_line
        (getSummary 0 (sample_theme [sample_finding Error] []) (sample_options False))))"
  by code_simp

text \<open>
  C10, amended. When exactly one of the two counts is positive and chalk emits its
  styling (level above 0), the first line of the summary holds 19 code units of styling,
  the run of dashes is 38 shorter than that line, and so it is 19 shorter than the
  visible text of the line. At level 0 the line holds no styling and the run of dashes
  has as many dashes as the line has code units beyond 38, none when it has no more.
\<close>

theorem getSummary_underline_short:
  assumes "(0 < length (error (results theme)) \<and> length (warning (results theme)) = 0)
         \<or> (length (error (results theme)) = 0 \<and> 0 < length (warning (results theme)))"
  shows "(0 < lvl \<longrightarrow>
            length (first_line (getSummary lvl theme options)) =
              length (strip_styles (first_line (getSummary lvl theme options))) + 19
            \<and> 38 \<le> length (first_line (getSummary lvl theme options))
            \<and> after_first_line (getSummary lvl theme options) =
                dashes (length (first_line (getSummary lvl theme options)) - 38)
            \<and> length (after_first_line (getSummary lvl theme options)) + 19 =
                length (strip_styles (first_line (getSummary lvl theme options))))
         \<and> (lvl = 0 \<longrightarrow>
            strip_styles (first_line (getSummary lvl theme options)) =
              first_line (getSummary lvl theme options)
            \<and> after_first_line (getSummary lvl theme options) =
                dashes (nat (max 0
                  (int (length (first_line (getSummary lvl theme options))) - 38))))"
proof -
  let ?e = "length (error (results theme))" and ?w = "length (warning (results theme))"
  let ?s = "summary_sentence (chalk lvl [red, bold]) (chalk lvl [yellow, bold]) ?e ?w"
  have pos: "0 < ?e \<or> 0 < ?w"
    using assms by blast
  have eq: "getSummary lvl theme options = ?s @ LF # dashes (nat (int (length ?s) - 38))"
    using pos by (rule getSummary_lines)
  have first: "first_line (getSummary lvl theme options) = ?s"
    unfolding eq by (rule first_line_append) (rule LF_summary_sentence)
  have rest: "after_first_line (getSummary lvl theme options) =
      dashes (nat (int (length ?s) - 38))"
    unfolding eq by (rule after_first_line_append) (rule LF_summary_sentence)
  have visible: "strip_styles ?s = summary_sentence id id ?e ?w"
    by (rule strip_summary_sentence)
  have plain: "23 \<le> length (summary_sentence id id ?e ?w)"
    using pos by (rule length_plain_sentence)
  have on: "length ?s = length (strip_styles ?s) + 19 \<and> 38 \<le> length ?s
      \<and> dashes (nat (int (length ?s) - 38)) = dashes (length ?s - 38)
      \<and> length (dashes (nat (int (length ?s) - 38))) + 19 = length (strip_styles ?s)"
    if "0 < lvl"
  proof -
    have len: "length ?s = length (summary_sentence id id ?e ?w) + 19"
      using assms unfolding length_summary_sentence [OF that] by auto
    with plain have "nat (int (length ?s) - 38) = length ?s - 38"
      and "length ?s - 38 + 19 = length (summary_sentence id id ?e ?w)"
      by simp_all
    with len plain visible show ?thesis
      by (simp add: dashes_def)
  qed
  have clamp: "nat (max 0 (int (length ?s) - 38)) = nat (int (length ?s) - 38)"
    by (simp add: max_def)
  have off: "strip_styles ?s = ?s" if "lvl = 0"
    using that visible by (simp add: summary_sentence_off)
  from on off show ?thesis
    unfolding first rest clamp by blast
qed

theorem getSummary_underline_short_witness:
  "((0 < length (error (results (sample_theme [sample_finding Error] [])))
      \<and> length (warning (results (sample_theme [sample_finding Error] []))) = 0)
    \<or> (length (error (results (sample_theme [sample_finding Error] []))) = 0
      \<and> 0 < length (warning (results (sample_theme [sample_finding Error] [])))))
   \<and> (0::nat) < 1
   \<and> length (after_first_line (getSummary 1 (sample_theme [sample_finding Error] []) (sample_options False))) + 19 =
       length (strip_styles (first_line (getSummary 1 (sample_theme [sample_finding Error] []) (sample_options False))))
   \<and> strip_styles (first_line (getSummary 1 (sample_theme [sample_finding Error] []) (sample_options False))) =
       js ''Your theme has 1 error!''
   \<and> after_first_line (getSummary 1 (sample_theme [sample_finding Error] []) (sample_options False)) =
       js ''----''
   \<and> strip_styles (first_line (getSummary 0 (sample_theme [sample_finding Error] []) (sample_options False))) =
       first_line (getSummary 0 (sample_theme [sample_finding Error] []) (sample_options False))"
proof -
  let ?t = "sample_theme [sample_finding Error] []"
  have h: "(0 < length (error (results ?t)) \<and> length (warning (results ?t)) = 0)
    \<or> (length (error (results ?t)) = 0 \<and> 0 < length (warning (results ?t)))"
    by (simp add: sample_theme_def)
  have on: "(0::nat) < 1"
    by simp
  have visible: "strip_styles (first_line (getSummary 1 ?t (sample_options False))) =
       js ''Your theme has 1 error!''"
    by code_simp
  have line: "after_first_line (getSummary 1 ?t (sample_options False)) = js ''----''"
    by code_simp
  note styled = getSummary_underline_short [OF h, of 1 "sample_options False",
      THEN conjunct1, rule_format, OF on]
  note unstyled = getSummary_underline_short [OF h, of 0 "sample_options False",
      THEN conjunct2, rule_format, OF refl]
  from h on styled [THEN conjunct2, THEN conjunct2, THEN conjunct2] visible line
    unstyled [THEN conjunct1]
  show ?thesis
    by (intro conjI)
qed

end
